theory Spec2Isabelle
  imports Complex_Main
begin

section \<open>JavaScript values used by the server\<close>

text \<open>
  The server (\<^verbatim>\<open>src/index.js\<close>) is a Node.js program. The numbers it handles are the
  doubles of integer value, the two infinities and \<open>NaN\<close> (what \<^verbatim>\<open>parseInt\<close> returns on a
  string without digits and what an invalid \<^verbatim>\<open>Date\<close> holds as its time value): the type
  \<open>jsnum\<close>. Negative zero is not told from zero. The time values and their differences
  are integers far below \<open>2^53\<close>, where doubles are exact; the value \<^verbatim>\<open>parseInt\<close> reads is
  rounded to the nearest double; the one product that is not an integer, in the random
  route, is rounded explicitly. Strings are lists of characters.
\<close>

datatype jsnum = Num int | NaN | Infinity | MinusInfinity

text \<open>\<^verbatim>\<open>a < b\<close> and \<^verbatim>\<open>a > b\<close> on numbers: any comparison with \<open>NaN\<close> is false.\<close>

fun js_lt :: "jsnum \<Rightarrow> jsnum \<Rightarrow> bool" where
  "js_lt (Num a) (Num b) = (a < b)"
| "js_lt NaN _ = False"
| "js_lt _ NaN = False"
| "js_lt Infinity _ = False"
| "js_lt _ MinusInfinity = False"
| "js_lt _ _ = True"

fun js_gt :: "jsnum \<Rightarrow> jsnum \<Rightarrow> bool" where
  "js_gt (Num a) (Num b) = (a > b)"
| "js_gt NaN _ = False"
| "js_gt _ NaN = False"
| "js_gt MinusInfinity _ = False"
| "js_gt _ Infinity = False"
| "js_gt _ _ = True"

text \<open>Truthiness of a value that is a string or \<^verbatim>\<open>undefined\<close>/\<^verbatim>\<open>null\<close> (\<open>None\<close>):
  only a non-empty string is truthy.\<close>

fun truthy :: "string option \<Rightarrow> bool" where
  "truthy None = False"
| "truthy (Some s) = (s \<noteq> [])"

definition digit_of :: "char \<Rightarrow> nat option" where
  "digit_of = map_of
     [(CHR ''0'', 0), (CHR ''1'', 1), (CHR ''2'', 2), (CHR ''3'', 3), (CHR ''4'', 4),
      (CHR ''5'', 5), (CHR ''6'', 6), (CHR ''7'', 7), (CHR ''8'', 8), (CHR ''9'', 9)]"

definition hex_digit_of :: "char \<Rightarrow> nat option" where
  "hex_digit_of = map_of
     [(CHR ''0'', 0), (CHR ''1'', 1), (CHR ''2'', 2), (CHR ''3'', 3), (CHR ''4'', 4),
      (CHR ''5'', 5), (CHR ''6'', 6), (CHR ''7'', 7), (CHR ''8'', 8), (CHR ''9'', 9),
      (CHR ''a'', 10), (CHR ''b'', 11), (CHR ''c'', 12), (CHR ''d'', 13), (CHR ''e'', 14),
      (CHR ''f'', 15), (CHR ''A'', 10), (CHR ''B'', 11), (CHR ''C'', 12), (CHR ''D'', 13),
      (CHR ''E'', 14), (CHR ''F'', 15)]"

definition isDigit :: "char \<Rightarrow> bool" where
  "isDigit c = (digit_of c \<noteq> None)"

definition digit_val :: "(char \<Rightarrow> nat option) \<Rightarrow> char \<Rightarrow> int" where
  "digit_val tab c = (case tab c of Some d \<Rightarrow> int d | None \<Rightarrow> 0)"

text \<open>The value of a digit string in radix \<open>R\<close>, most significant digit first.\<close>

definition radix_value :: "int \<Rightarrow> (char \<Rightarrow> nat option) \<Rightarrow> string \<Rightarrow> int" where
  "radix_value R tab Z = foldl (\<lambda>acc c. R * acc + digit_val tab c) 0 Z"

definition digit_char :: "int \<Rightarrow> char" where
  "digit_char d = ''0123456789'' ! nat d"

text \<open>The last \<open>w\<close> decimal digits of \<open>n \<ge> 0\<close>, with leading zeros.\<close>

fun pad :: "nat \<Rightarrow> int \<Rightarrow> string" where
  "pad 0 n = []"
| "pad (Suc w) n = pad w (n div 10) @ [digit_char (n mod 10)]"

subsection \<open>Rounding an integer to a double\<close>

text \<open>
  A double holds 53 significant bits. \<open>excess_bits f n\<close> counts the bits of \<open>n \<ge> 0\<close> beyond
  53, by halving; the fuel \<open>f\<close> suffices when \<open>n < 2 ^ (53 + f)\<close>. \<open>nearest_double f n\<close>
  drops these bits and rounds to nearest, ties to the even significand. A result of
  \<open>2 ^ 1024\<close> or more is beyond the largest double and stands for an infinity.
\<close>

fun excess_bits :: "nat \<Rightarrow> int \<Rightarrow> nat" where
  "excess_bits 0 n = 0"
| "excess_bits (Suc f) n = (if n < 2 ^ 53 then 0 else Suc (excess_bits f (n div 2)))"

definition nearest_double :: "nat \<Rightarrow> int \<Rightarrow> int" where
  "nearest_double f n =
     (let e = excess_bits f n;
          q = n div 2 ^ e;
          r = n mod 2 ^ e;
          q' = (if 2 ^ e < 2 * r \<or> (2 * r = 2 ^ e \<and> odd q) then q + 1 else q)
      in q' * 2 ^ e)"

subsection \<open>\<^verbatim>\<open>parseInt\<close> with no radix argument\<close>

text \<open>
  ECMA-262 \<^verbatim>\<open>parseInt(string)\<close>: leading white space is skipped, an optional sign is read,
  a \<^verbatim>\<open>0x\<close>/\<^verbatim>\<open>0X\<close> prefix selects radix 16 (otherwise 10), and the longest prefix of digits
  is the value, as a double; with no digit the result is \<open>NaN\<close>. A string of \<open>k\<close> digits has
  a value below \<open>2 ^ (4 * k)\<close>, which bounds the bits to drop. Header values reach the
  program as Latin-1 strings, whose white space characters are the seven below.
\<close>

definition isWhiteSpace :: "char \<Rightarrow> bool" where
  "isWhiteSpace c = (c \<in> set [CHR 0x09, CHR 0x0A, CHR 0x0B, CHR 0x0C, CHR 0x0D, CHR 0x20, CHR 0xA0])"

definition parseInt :: "string \<Rightarrow> jsnum" where
  "parseInt s =
     (let S = dropWhile isWhiteSpace s;
          sign = (case S of c # _ \<Rightarrow> if c = CHR ''-'' then - 1 else 1 | [] \<Rightarrow> (1::int));
          S1 = (case S of c # r \<Rightarrow> if c = CHR ''-'' \<or> c = CHR ''+'' then r else S | [] \<Rightarrow> S);
          hex = (case S1 of a # b # _ \<Rightarrow> a = CHR ''0'' \<and> (b = CHR ''x'' \<or> b = CHR ''X'') | _ \<Rightarrow> False);
          R = (if hex then 16 else 10);
          tab = (if hex then hex_digit_of else digit_of);
          S2 = (if hex then drop 2 S1 else S1);
          Z = takeWhile (\<lambda>c. tab c \<noteq> None) S2;
          m = nearest_double (4 * length Z) (radix_value R tab Z)
      in if Z = [] then NaN
         else if 2 ^ 1024 \<le> m then (if sign < 0 then MinusInfinity else Infinity)
         else Num (sign * m))"

subsection \<open>The regular expression of the date route\<close>

text \<open>
  \<^verbatim>\<open>/^\d{4}-\d{2}-\d{2}$/\<close> has neither the multiline nor the unicode flag: \<^verbatim>\<open>\d\<close> is one
  of the ten ASCII digits, \<^verbatim>\<open>^\<close> and \<^verbatim>\<open>$\<close> are the two ends of the input. A pattern
  that is a sequence of single-character atoms between both anchors matches a string
  exactly when they have the same length and each character matches its atom.
\<close>

datatype re_atom = Digit | Lit char

fun atom_match :: "re_atom \<Rightarrow> char \<Rightarrow> bool" where
  "atom_match Digit c = isDigit c"
| "atom_match (Lit a) c = (c = a)"

definition regex_test :: "re_atom list \<Rightarrow> string \<Rightarrow> bool" where
  "regex_test re s = list_all2 atom_match re s"

definition dateRegex :: "re_atom list" where
  "dateRegex = [Digit, Digit, Digit, Digit, Lit CHR ''-'', Digit, Digit, Lit CHR ''-'', Digit, Digit]"

section \<open>Dates\<close>

text \<open>
  Time values are milliseconds since 1970-01-01T00:00:00Z. The functions below are the
  abstract operations of ECMA-262 (section "Time Values and Time Range") under their own
  names. \<open>YearFromTime\<close>, specified there as the largest \<open>y\<close> with
  \<open>TimeFromYear y \<le> t\<close>, is computed from the mean length of a year (146097 days in
  400 years), which is off by at most one year, and then adjusted. The month tables of
  \<open>MonthFromTime\<close>, \<open>DateFromTime\<close> and \<open>MakeDay\<close> are the one list \<open>monthStart\<close> of the
  first day of each month within its year.
\<close>

definition msPerDay :: int where
  "msPerDay = 86400000"

definition Day :: "int \<Rightarrow> int" where
  "Day t = t div msPerDay"

definition TimeWithinDay :: "int \<Rightarrow> int" where
  "TimeWithinDay t = t mod msPerDay"

definition DaysInYear :: "int \<Rightarrow> int" where
  "DaysInYear y =
     (if y mod 4 \<noteq> 0 then 365 else if y mod 100 \<noteq> 0 then 366
      else if y mod 400 \<noteq> 0 then 365 else 366)"

definition DayFromYear :: "int \<Rightarrow> int" where
  "DayFromYear y =
     365 * (y - 1970) + (y - 1969) div 4 - (y - 1901) div 100 + (y - 1601) div 400"

definition YearFromTime :: "int \<Rightarrow> int" where
  "YearFromTime t =
     (let d = Day t; y = 1970 + (400 * d) div 146097
      in if DayFromYear (y + 1) \<le> d then y + 1 else if DayFromYear y \<le> d then y else y - 1)"

definition InLeapYear :: "int \<Rightarrow> int" where
  "InLeapYear t = (if DaysInYear (YearFromTime t) = 366 then 1 else 0)"

definition DayWithinYear :: "int \<Rightarrow> int" where
  "DayWithinYear t = Day t - DayFromYear (YearFromTime t)"

definition monthStart :: "int \<Rightarrow> int list" where
  "monthStart leap =
     [0, 31, 59 + leap, 90 + leap, 120 + leap, 151 + leap, 181 + leap, 212 + leap,
      243 + leap, 273 + leap, 304 + leap, 334 + leap]"

definition MonthFromTime :: "int \<Rightarrow> nat" where
  "MonthFromTime t =
     length (filter (\<lambda>s. s \<le> DayWithinYear t) (monthStart (InLeapYear t))) - 1"

definition DateFromTime :: "int \<Rightarrow> int" where
  "DateFromTime t = DayWithinYear t - monthStart (InLeapYear t) ! MonthFromTime t + 1"

text \<open>\<open>MakeDay year month date\<close> with a month index in \<open>0..11\<close> (the only use here); a
  \<open>date\<close> beyond the month's length runs over into the following month.\<close>

definition MakeDay :: "int \<Rightarrow> nat \<Rightarrow> int \<Rightarrow> int" where
  "MakeDay year month dt =
     DayFromYear year + monthStart (if DaysInYear year = 366 then 1 else 0) ! month + dt - 1"

definition MakeDate :: "int \<Rightarrow> int \<Rightarrow> int" where
  "MakeDate dy tm = dy * msPerDay + tm"

text \<open>
  \<^verbatim>\<open>new Date(s)\<close> for a string of the shape \<^verbatim>\<open>dddd-dd-dd\<close>, the only strings the program
  gives it. This is the date-only ISO form, read as UTC midnight. V8 (the engine of
  Node.js) accepts a month in \<open>01..12\<close> and a day in \<open>01..31\<close> and builds the time value
  with \<open>MakeDay\<close>; any other element value gives an invalid date, whose time value is
  \<open>NaN\<close>, as ECMA-262 requires of \<^verbatim>\<open>Date.parse\<close> for out-of-bounds elements. (A day
  beyond the length of its month, as in \<^verbatim>\<open>2024-02-30\<close>, runs over into the next month in
  V8; nothing below depends on such a string.)
\<close>

definition Date_parse :: "string \<Rightarrow> jsnum" where
  "Date_parse s =
     (if regex_test dateRegex s then
        (let year = radix_value 10 digit_of (take 4 s);
             month = radix_value 10 digit_of (take 2 (drop 5 s));
             dt = radix_value 10 digit_of (take 2 (drop 8 s))
         in if 1 \<le> month \<and> month \<le> 12 \<and> 1 \<le> dt \<and> dt \<le> 31
            then Num (MakeDate (MakeDay year (nat (month - 1)) dt) 0) else NaN)
      else NaN)"

text \<open>\<^verbatim>\<open>toISOString()\<close> of a valid date: \<^verbatim>\<open>YYYY-MM-DDTHH:mm:ss.sssZ\<close>, with the expanded
  year \<^verbatim>\<open>+YYYYYY\<close>/\<^verbatim>\<open>-YYYYYY\<close> outside the years \<open>0..9999\<close>.\<close>

definition year_string :: "int \<Rightarrow> string" where
  "year_string y =
     (if 0 \<le> y \<and> y \<le> 9999 then pad 4 y
      else (if y < 0 then CHR ''-'' else CHR ''+'') # pad 6 \<bar>y\<bar>)"

definition date_string :: "int \<Rightarrow> string" where
  "date_string t =
     year_string (YearFromTime t) @ ''-'' @ pad 2 (int (MonthFromTime t) + 1) @ ''-'' @
     pad 2 (DateFromTime t)"

definition time_string :: "int \<Rightarrow> string" where
  "time_string t =
     (let ms = TimeWithinDay t
      in pad 2 (ms div 3600000) @ '':'' @ pad 2 (ms div 60000 mod 60) @ '':'' @
         pad 2 (ms div 1000 mod 60) @ ''.'' @ pad 3 (ms mod 1000))"

definition toISOString :: "int \<Rightarrow> string" where
  "toISOString t = date_string t @ ''T'' @ time_string t @ ''Z''"

text \<open>\<^verbatim>\<open>s.split('T')[0]\<close>: the part of \<open>s\<close> before its first \<^verbatim>\<open>T\<close>.\<close>

definition split_T_0 :: "string \<Rightarrow> string" where
  "split_T_0 s = takeWhile (\<lambda>c. c \<noteq> CHR ''T'') s"

section \<open>The server state and its environment\<close>

text \<open>
  \<^verbatim>\<open>RATE_LIMIT\<close> and \<^verbatim>\<open>apodCache\<close> are the two module-level mutable objects of
  \<^verbatim>\<open>src/index.js\<close>. The cache is a JavaScript \<^verbatim>\<open>Map\<close> from date keys to the records the
  provider returned: a partial function. A record has the fields the views read.
\<close>

record rate_limit =
  limit :: jsnum
  remaining :: jsnum
  resetTime :: "jsnum option"

record apod =
  title :: string
  date :: string
  explanation :: string
  url :: string
  media_type :: string

record server_state =
  RATE_LIMIT :: rate_limit
  apodCache :: "string \<rightharpoonup> apod"

definition initial_state :: server_state where
  "initial_state =
     \<lparr>RATE_LIMIT = \<lparr>limit = Num 1000, remaining = Num 1000, resetTime = None\<rparr>,
      apodCache = Map.empty\<rparr>"

text \<open>
  What \<^verbatim>\<open>axios.get\<close> is called with, what it resolves to, and what it throws. A
  response's headers map lower-case names to values. An error carries \<^verbatim>\<open>message\<close>,
  \<^verbatim>\<open>code\<close> (such as \<^verbatim>\<open>ECONNABORTED\<close>) when there is one, and \<^verbatim>\<open>response\<close> when the provider
  answered; the body \<^verbatim>\<open>response.data\<close> is \<open>None\<close> when it is absent or not an object, and
  otherwise gives the string fields of the object.
\<close>

record axios_request =
  req_url :: string
  params_api_key :: string
  params_date :: "string option"
  req_timeout :: nat

record axios_response =
  headers :: "string \<rightharpoonup> string"
  data :: apod

record error_response =
  status :: int
  err_data :: "(string \<rightharpoonup> string) option"

record axios_error =
  message :: string
  code :: "string option"
  response :: "error_response option"

text \<open>
  The environment of one request: the API key read at start-up, the clock (\<^verbatim>\<open>new Date()\<close>,
  a time value), the provider behind \<^verbatim>\<open>axios.get\<close>, the fraction \<^verbatim>\<open>Math.random()\<close>
  returns, and the rounding of a real number to a double that the one floating-point
  multiplication of the program performs. Each handler reads the clock and the random
  source at most once. The provider's answer is a JSON object with a string \<^verbatim>\<open>date\<close>.
\<close>

record environment =
  API_KEY :: string
  now :: int
  axios_get :: "axios_request \<Rightarrow> axios_error + axios_response"
  Math_random :: real
  to_double :: "real \<Rightarrow> real"

definition API_URL :: string where
  "API_URL = ''https://api.nasa.gov/planetary/apod''"

subsection \<open>\<^verbatim>\<open>updateRateLimitFromHeaders\<close> (index.js, lines 36 to 43)\<close>

definition updateRateLimitFromHeaders :: "(string \<rightharpoonup> string) \<Rightarrow> rate_limit \<Rightarrow> rate_limit" where
  "updateRateLimitFromHeaders hs rl =
     (let rl1 = (if truthy (hs ''x-ratelimit-limit'')
                 then rl\<lparr>limit := parseInt (the (hs ''x-ratelimit-limit''))\<rparr> else rl)
      in if truthy (hs ''x-ratelimit-remaining'')
         then rl1\<lparr>remaining := parseInt (the (hs ''x-ratelimit-remaining''))\<rparr> else rl1)"

subsection \<open>\<^verbatim>\<open>fetchAPOD\<close> (index.js, lines 60 to 86)\<close>

text \<open>
  The argument is \<open>None\<close> when the caller omits it (the default \<^verbatim>\<open>null\<close>). The result is
  what the promise settles to (\<open>Inl\<close>: the error thrown by \<^verbatim>\<open>axios.get\<close>), the state
  afterwards, and the outbound calls made. Console output is not modelled. The copy in
  \<^verbatim>\<open>src/unnamed/part_001\<close> differs in the request options only (a timeout of 30000 and
  \<^verbatim>\<open>family: 4\<close>) and rethrows what it catches.
\<close>

definition todayKey :: "environment \<Rightarrow> string" where
  "todayKey env = split_T_0 (toISOString (now env))"

definition dateKey_of :: "environment \<Rightarrow> string option \<Rightarrow> string" where
  "dateKey_of env dateArg = (if truthy dateArg then the dateArg else todayKey env)"

definition request_of :: "environment \<Rightarrow> string option \<Rightarrow> axios_request" where
  "request_of env dateArg =
     \<lparr>req_url = API_URL, params_api_key = API_KEY env,
      params_date = (if truthy dateArg then dateArg else None), req_timeout = 25000\<rparr>"

definition fetchAPOD ::
  "environment \<Rightarrow> string option \<Rightarrow> server_state \<Rightarrow>
     (axios_error + apod) \<times> server_state \<times> axios_request list" where
  "fetchAPOD env dateArg st =
     (let dateKey = dateKey_of env dateArg
      in case apodCache st dateKey of
           Some r \<Rightarrow> (Inr r, st, [])
         | None \<Rightarrow>
             (let req = request_of env dateArg
              in case axios_get env req of
                   Inl err \<Rightarrow> (Inl err, st, [req])
                 | Inr resp \<Rightarrow>
                     (let rl = updateRateLimitFromHeaders (headers resp) (RATE_LIMIT st);
                          c1 = (apodCache st)(date (data resp) \<mapsto> data resp);
                          c2 = (if \<not> truthy dateArg \<and> date (data resp) \<noteq> dateKey
                                then c1(dateKey \<mapsto> data resp) else c1)
                      in (Inr (data resp), \<lparr>RATE_LIMIT = rl, apodCache = c2\<rparr>, [req]))))"

subsection \<open>Error messages: \<^verbatim>\<open>getErrorMessage\<close> and \<^verbatim>\<open>handleError\<close>\<close>

text \<open>The warning sign that starts the three fixed messages, U+26A0 U+FE0F, in UTF-8.\<close>

definition warning_sign :: string where
  "warning_sign = [CHR 0xE2, CHR 0x9A, CHR 0xA0, CHR 0xEF, CHR 0xB8, CHR 0x8F]"

definition rate_limit_message :: string where
  "rate_limit_message =
     warning_sign @ '' API RATE LIMIT EXCEEDED! Get your FREE personal API key at https://api.nasa.gov/''"

definition server_error_message :: string where
  "server_error_message =
     warning_sign @ '' NASA Servers are experiencing issues. Please try again later.''"

definition timeout_message :: string where
  "timeout_message =
     warning_sign @ '' Connection timed out. NASA servers are slow to respond.''"

text \<open>\<^verbatim>\<open>error.response?.status\<close>: \<open>None\<close> is \<^verbatim>\<open>undefined\<close>, which is neither \<^verbatim>\<open>=== 429\<close>
  nor \<^verbatim>\<open>>= 500\<close>.\<close>

definition status_of :: "axios_error \<Rightarrow> int option" where
  "status_of err = map_option status (response err)"

text \<open>\<^verbatim>\<open>getErrorMessage\<close> of \<^verbatim>\<open>src/unnamed/part_001\<close> (lines 99 to 112); the same chain
  computes the variable \<^verbatim>\<open>errorMessage\<close> in \<^verbatim>\<open>handleError\<close> of index.js (lines 96 to 106).\<close>

definition getErrorMessage :: "axios_error \<Rightarrow> string \<Rightarrow> string" where
  "getErrorMessage err customMessage =
     (if status_of err = Some 429 then rate_limit_message
      else if (case status_of err of Some s \<Rightarrow> s \<ge> 500 | None \<Rightarrow> False) then server_error_message
      else if code err = Some ''ECONNABORTED'' then timeout_message
      else customMessage @ '' '' @ message err)"

text \<open>\<^verbatim>\<open>error.response?.data?.msg\<close>.\<close>

definition body_msg :: "axios_error \<Rightarrow> string option" where
  "body_msg err =
     (case response err of None \<Rightarrow> None
      | Some r \<Rightarrow> (case err_data r of None \<Rightarrow> None | Some obj \<Rightarrow> obj ''msg''))"

text \<open>What a handler sends: the HTTP status and the values given to the view.\<close>

record rendered =
  http_status :: nat
  view :: string
  view_data :: "apod option"
  view_error :: "string option"

text \<open>\<^verbatim>\<open>handleError\<close> (index.js, lines 89 to 112).\<close>

definition handleError :: "axios_error \<Rightarrow> string \<Rightarrow> rendered" where
  "handleError err customMessage =
     (let errorMessage =
            (if status_of err = Some 429 then rate_limit_message
             else if (case status_of err of Some s \<Rightarrow> s \<ge> 500 | None \<Rightarrow> False)
                  then server_error_message
             else if code err = Some ''ECONNABORTED'' then timeout_message
             else customMessage @ '' '' @ message err)
      in \<lparr>http_status = 500, view = ''index.ejs'', view_data = None,
          view_error = Some (if truthy (body_msg err) then the (body_msg err) else errorMessage)\<rparr>)"

subsection \<open>The date route (index.js, lines 124 to 149)\<close>

text \<open>
  The two checks of the handler, before it fetches: the first early return is the
  format error, the second the range error. \<open>selectedDate\<close> is \<open>None\<close> when the form has
  no \<^verbatim>\<open>date\<close> field. Nothing here reads or writes the server state or calls the provider.
\<close>

datatype validation_error = FORMAT_ERROR | RANGE_ERROR

definition validate :: "environment \<Rightarrow> string option \<Rightarrow> validation_error + string" where
  "validate env selectedDate =
     (if \<not> truthy selectedDate \<or> \<not> regex_test dateRegex (the selectedDate) then Inl FORMAT_ERROR
      else
        (let inputDate = Date_parse (the selectedDate);
             minDate = Date_parse ''1995-06-16'';
             today = Num (now env)
         in if js_lt inputDate minDate \<or> js_gt inputDate today then Inl RANGE_ERROR
            else Inr (the selectedDate)))"

definition validation_message :: "validation_error \<Rightarrow> string" where
  "validation_message e =
     (case e of FORMAT_ERROR \<Rightarrow> ''Invalid date format. Please use YYYY-MM-DD.''
      | RANGE_ERROR \<Rightarrow> ''Date must be between June 16, 1995 and today.'')"

definition render_result ::
  "string \<Rightarrow> (axios_error + apod) \<times> server_state \<times> axios_request list \<Rightarrow>
     rendered \<times> server_state \<times> axios_request list" where
  "render_result customMessage res =
     (case res of
        (Inr d, st, calls) \<Rightarrow>
          (\<lparr>http_status = 200, view = ''index.ejs'', view_data = Some d, view_error = None\<rparr>, st, calls)
      | (Inl err, st, calls) \<Rightarrow> (handleError err customMessage, st, calls))"

definition post_get_date_picture ::
  "environment \<Rightarrow> string option \<Rightarrow> server_state \<Rightarrow> rendered \<times> server_state \<times> axios_request list" where
  "post_get_date_picture env selectedDate st =
     (case validate env selectedDate of
        Inl e \<Rightarrow>
          (\<lparr>http_status = 200, view = ''index.ejs'', view_data = None,
            view_error = Some (validation_message e)\<rparr>, st, [])
      | Inr d \<Rightarrow>
          render_result (''Failed to fetch picture from '' @ d @ ''.'') (fetchAPOD env (Some d) st))"

subsection \<open>The home route (index.js, lines 114 to 122)\<close>

definition get_root ::
  "environment \<Rightarrow> server_state \<Rightarrow> rendered \<times> server_state \<times> axios_request list" where
  "get_root env st = render_result ''Failed to fetch today's picture.'' (fetchAPOD env None st)"

subsection \<open>The random route (index.js, lines 151 to 169)\<close>

text \<open>
  \<open>firstAPOD\<close> is \<^verbatim>\<open>new Date('1995-06-16').getTime()\<close> (lemma \<open>Date_parse_firstAPOD\<close> below).
  The difference of the two time values is an integer and exact; the product with the
  fraction is rounded to a double before \<^verbatim>\<open>Math.floor\<close>. The clock being a valid time
  value, so is the random moment, and \<^verbatim>\<open>toISOString\<close> does not throw.
\<close>

definition firstAPOD :: int where
  "firstAPOD = 803260800000"

definition randomTime :: "environment \<Rightarrow> int" where
  "randomTime env =
     (let timeDiff = now env - firstAPOD
      in firstAPOD + \<lfloor>to_double env (Math_random env * of_int timeDiff)\<rfloor>)"

definition randomDate :: "environment \<Rightarrow> string" where
  "randomDate env = split_T_0 (toISOString (randomTime env))"

definition get_random ::
  "environment \<Rightarrow> server_state \<Rightarrow> rendered \<times> server_state \<times> axios_request list" where
  "get_random env st =
     render_result ''Failed to fetch random picture.'' (fetchAPOD env (Some (randomDate env)) st)"

section \<open>Example values\<close>

text \<open>
  Two records of the same day with different titles and the record of the day before;
  at 2024-11-02T06:00:00.123Z a provider that answers every request with the second
  record and the rate-limit headers 1000 and 950, and one whose every request times
  out; at 2024-11-01T02:00:00Z a provider that still answers with the record of
  2024-10-31; a provider error with a JSON body that has a \<^verbatim>\<open>msg\<close> field.
\<close>

definition example_apod :: apod where
  "example_apod =
     \<lparr>title = ''Saturn at Night'', date = ''2024-11-01'', explanation = ''Still Saturn.'',
      url = ''https://apod.nasa.gov/apod/image/a.jpg'', media_type = ''image''\<rparr>"

definition example_apod_later :: apod where
  "example_apod_later =
     \<lparr>title = ''Saturn at Night (corrected)'', date = ''2024-11-01'',
      explanation = ''Still Saturn.'', url = ''https://apod.nasa.gov/apod/image/a.jpg'',
      media_type = ''image''\<rparr>"

definition apod_oct31 :: apod where
  "apod_oct31 =
     \<lparr>title = ''Pumpkin Nebula'', date = ''2024-10-31'', explanation = ''A nebula.'',
      url = ''https://apod.nasa.gov/apod/image/p.jpg'', media_type = ''image''\<rparr>"

definition example_response :: axios_response where
  "example_response =
     \<lparr>headers = [''x-ratelimit-limit'' \<mapsto> ''1000'', ''x-ratelimit-remaining'' \<mapsto> ''950''],
      data = example_apod_later\<rparr>"

definition example_error :: "int \<Rightarrow> axios_error" where
  "example_error s =
     \<lparr>message = ''Request failed'', code = Some ''ERR_BAD_RESPONSE'',
      response = Some \<lparr>status = s, err_data = Some [''msg'' \<mapsto> ''Internal Service Error'']\<rparr>\<rparr>"

definition timeout_error :: axios_error where
  "timeout_error =
     \<lparr>message = ''timeout of 25000ms exceeded'', code = Some ''ECONNABORTED'', response = None\<rparr>"

definition example_env :: environment where
  "example_env =
     \<lparr>API_KEY = ''DEMO_KEY'', now = 1730527200123, axios_get = (\<lambda>req. Inr example_response),
      Math_random = 1 / 2, to_double = (\<lambda>x. x)\<rparr>"

definition failing_env :: environment where
  "failing_env =
     \<lparr>API_KEY = ''DEMO_KEY'', now = 1730527200123, axios_get = (\<lambda>req. Inl timeout_error),
      Math_random = 1 / 2, to_double = (\<lambda>x. x)\<rparr>"

definition earlier_env :: environment where
  "earlier_env =
     \<lparr>API_KEY = ''DEMO_KEY'', now = 1730426400000,
      axios_get = (\<lambda>req. Inr \<lparr>headers = Map.empty, data = apod_oct31\<rparr>),
      Math_random = 1 / 2, to_double = (\<lambda>x. x)\<rparr>"

definition example_state :: server_state where
  "example_state =
     \<lparr>RATE_LIMIT = \<lparr>limit = Num 1000, remaining = Num 1000, resetTime = None\<rparr>,
      apodCache = [''2024-11-01'' \<mapsto> example_apod]\<rparr>"

section \<open>Strings: the date part of \<^verbatim>\<open>toISOString\<close>\<close>

lemma digit_char_table: "\<forall>k \<in> set [0..9]. digit_of (digit_char k) = Some (nat k)"
  by code_simp

lemma digit_of_digit_char: "0 \<le> k \<Longrightarrow> k < 10 \<Longrightarrow> digit_of (digit_char k) = Some (nat k)"
  using digit_char_table by simp

lemma digit_val_digit_char: "digit_val digit_of (digit_char (n mod 10)) = n mod 10"
  by (simp add: digit_val_def digit_of_digit_char)

lemma isDigit_digit_char: "isDigit (digit_char (n mod 10))"
  by (simp add: isDigit_def digit_of_digit_char)

lemma isDigit_not_T: "isDigit c \<Longrightarrow> c \<noteq> CHR ''T''"
  by (auto simp: isDigit_def digit_of_def)

lemma length_pad: "length (pad w n) = w"
  by (induction w arbitrary: n) simp_all

lemma pad_digits: "c \<in> set (pad w n) \<Longrightarrow> isDigit c"
  by (induction w arbitrary: n) (auto simp: isDigit_digit_char)

lemma pad_no_T: "CHR ''T'' \<notin> set (pad w n)"
  using pad_digits isDigit_not_T by blast

lemma date_string_no_T: "CHR ''T'' \<notin> set (date_string t)"
  unfolding date_string_def year_string_def using pad_no_T by simp

lemma split_toISOString: "split_T_0 (toISOString t) = date_string t"
proof -
  have "\<And>c. c \<in> set (date_string t) \<Longrightarrow> c \<noteq> CHR ''T''"
    using date_string_no_T by blast
  then have "takeWhile (\<lambda>c. c \<noteq> CHR ''T'') (date_string t @ ''T'' @ time_string t @ ''Z'') =
             date_string t @ takeWhile (\<lambda>c. c \<noteq> CHR ''T'') (''T'' @ time_string t @ ''Z'')"
    by (rule takeWhile_append2)
  then show ?thesis unfolding split_T_0_def toISOString_def by simp
qed

lemma date_string_nonempty: "date_string t \<noteq> []"
  unfolding date_string_def by simp

lemma todayKey_date_string: "todayKey env = date_string (now env)"
  unfolding todayKey_def by (rule split_toISOString)

lemma todayKey_nonempty: "todayKey env \<noteq> []"
  by (simp add: todayKey_date_string date_string_nonempty)

lemma todayKey_example: "todayKey example_env = ''2024-11-02''"
  unfolding todayKey_def example_env_def by simp code_simp

lemma todayKey_earlier: "todayKey earlier_env = ''2024-11-01''"
  unfolding todayKey_def earlier_env_def by simp code_simp

section \<open>The fetch helper, case by case\<close>

lemma dateKey_of_Some: "k \<noteq> [] \<Longrightarrow> dateKey_of env (Some k) = k"
  by (simp add: dateKey_of_def)

lemma dateKey_of_falsy: "\<not> truthy dateArg \<Longrightarrow> dateKey_of env dateArg = todayKey env"
  by (simp add: dateKey_of_def)

lemma fetchAPOD_hit:
  "apodCache st (dateKey_of env dateArg) = Some r \<Longrightarrow> fetchAPOD env dateArg st = (Inr r, st, [])"
  by (simp add: fetchAPOD_def)

lemma fetchAPOD_miss_error:
  "apodCache st (dateKey_of env dateArg) = None \<Longrightarrow>
   axios_get env (request_of env dateArg) = Inl err \<Longrightarrow>
   fetchAPOD env dateArg st = (Inl err, st, [request_of env dateArg])"
  by (simp add: fetchAPOD_def)

lemma fetchAPOD_miss_success:
  "apodCache st (dateKey_of env dateArg) = None \<Longrightarrow>
   axios_get env (request_of env dateArg) = Inr resp \<Longrightarrow>
   fetchAPOD env dateArg st =
     (Inr (data resp),
      \<lparr>RATE_LIMIT = updateRateLimitFromHeaders (headers resp) (RATE_LIMIT st),
       apodCache =
         (if \<not> truthy dateArg \<and> date (data resp) \<noteq> dateKey_of env dateArg
          then (apodCache st)(date (data resp) \<mapsto> data resp, dateKey_of env dateArg \<mapsto> data resp)
          else (apodCache st)(date (data resp) \<mapsto> data resp))\<rparr>,
      [request_of env dateArg])"
  by (simp add: fetchAPOD_def Let_def)

lemma fetchAPOD_miss_calls:
  "apodCache st (dateKey_of env dateArg) = None \<Longrightarrow>
   snd (snd (fetchAPOD env dateArg st)) = [request_of env dateArg]"
  unfolding fetchAPOD_def Let_def by (simp split: sum.splits)

lemma fetchAPOD_one_call: "length (snd (snd (fetchAPOD env dateArg st))) \<le> 1"
  unfolding fetchAPOD_def Let_def by (simp split: option.splits sum.splits)

lemma render_result_calls: "snd (snd (render_result c res)) = snd (snd res)"
  unfolding render_result_def by (cases res) (auto split: sum.splits)

lemma render_result_state: "fst (snd (render_result c res)) = fst (snd res)"
  unfolding render_result_def by (cases res) (auto split: sum.splits)

text \<open>The routes touch the state through the fetch helper only.\<close>

lemma get_root_state: "fst (snd (get_root env st)) = fst (snd (fetchAPOD env None st))"
  by (simp add: get_root_def render_result_state)

lemma get_random_state:
  "fst (snd (get_random env st)) = fst (snd (fetchAPOD env (Some (randomDate env)) st))"
  by (simp add: get_random_def render_result_state)

lemma post_get_date_picture_state:
  "fst (snd (post_get_date_picture env selectedDate st)) =
     (case validate env selectedDate of
        Inl e \<Rightarrow> st
      | Inr d \<Rightarrow> fst (snd (fetchAPOD env (Some d) st)))"
  by (simp add: post_get_date_picture_def render_result_state split: sum.splits)

lemma parseInt_1000: "parseInt ''1000'' = Num 1000"
  by code_simp

lemma parseInt_950: "parseInt ''950'' = Num 950"
  by code_simp

lemma handleError_view:
  "handleError err c =
     \<lparr>http_status = 500, view = ''index.ejs'', view_data = None,
      view_error = Some (if truthy (body_msg err) then the (body_msg err) else getErrorMessage err c)\<rparr>"
  by (simp add: handleError_def getErrorMessage_def)

section \<open>The calendar\<close>

lemma succ_div:
  fixes x n :: int
  assumes "0 < n"
  shows "(x + 1) div n = x div n + (if (x + 1) mod n = 0 then 1 else 0)"
proof -
  define q r where "q = x div n" and "r = x mod n"
  have x: "x = n * q + r" and r: "0 \<le> r" "r < n"
    using assms by (simp_all add: q_def r_def)
  show ?thesis
  proof (cases "r + 1 = n")
    case True
    then have e: "x + 1 = n * (q + 1) + 0" using x by (simp add: algebra_simps)
    have "(x + 1) div n = q + 1" by (rule int_div_pos_eq[OF e]) (use assms in simp_all)
    moreover have "(x + 1) mod n = 0" by (rule int_mod_pos_eq[OF e]) (use assms in simp_all)
    ultimately show ?thesis by (simp add: q_def)
  next
    case False
    then have b: "0 \<le> r + 1" "r + 1 < n" using r by simp_all
    have e: "x + 1 = n * q + (r + 1)" using x by simp
    have "(x + 1) div n = q" by (rule int_div_pos_eq[OF e b])
    moreover have "(x + 1) mod n = r + 1" by (rule int_mod_pos_eq[OF e b])
    ultimately show ?thesis using r by (simp add: q_def)
  qed
qed

lemma sub_mult_mod: "((y::int) - k * n) mod n = y mod n"
  by (metis mod_mult_self1 uminus_add_conv_diff add.commute mult_minus_left)

lemma mod_coarser:
  fixes y :: int
  assumes "y mod a = 0" and "b dvd a"
  shows "y mod b = 0"
proof -
  from assms(1) have "a dvd y" by (simp add: mod_eq_0_iff_dvd)
  with assms(2) have "b dvd y" by (rule dvd_trans)
  then show ?thesis by (simp add: mod_eq_0_iff_dvd)
qed

text \<open>\<open>DayFromYear\<close> advances by the length of the year.\<close>

lemma DayFromYear_step: "DayFromYear (y + 1) = DayFromYear y + DaysInYear y"
proof -
  have a: "(y + 1 - 1969) div 4 = (y - 1969) div 4 + (if y mod 4 = 0 then 1 else 0)"
    using succ_div[of 4 "y - 1969"] sub_mult_mod[of y 492 4] by (simp add: algebra_simps)
  have b: "(y + 1 - 1901) div 100 = (y - 1901) div 100 + (if y mod 100 = 0 then 1 else 0)"
    using succ_div[of 100 "y - 1901"] sub_mult_mod[of y 19 100] by (simp add: algebra_simps)
  have c: "(y + 1 - 1601) div 400 = (y - 1601) div 400 + (if y mod 400 = 0 then 1 else 0)"
    using succ_div[of 400 "y - 1601"] sub_mult_mod[of y 4 400] by (simp add: algebra_simps)
  have d: "y mod 400 = 0 \<Longrightarrow> y mod 100 = 0" by (rule mod_coarser[of y 400 100]) simp_all
  have e: "y mod 100 = 0 \<Longrightarrow> y mod 4 = 0" by (rule mod_coarser[of y 100 4]) simp_all
  show ?thesis
    unfolding DayFromYear_def DaysInYear_def a b c using d e by auto
qed

lemma DaysInYear_cases: "DaysInYear y = 365 \<or> DaysInYear y = 366"
  unfolding DaysInYear_def by simp

lemma DayFromYear_mono: "a \<le> b \<Longrightarrow> DayFromYear a \<le> DayFromYear b"
proof (induction b rule: int_ge_induct)
  case base
  show ?case by simp
next
  case (step b)
  have "DayFromYear (b + 1) = DayFromYear b + DaysInYear b" by (rule DayFromYear_step)
  with step.IH DaysInYear_cases[of b] show ?case by linarith
qed

lemma div_lower: "0 < n \<Longrightarrow> n * ((a::int) div n) \<le> a"
  using mult_div_mod_eq[of n a] pos_mod_sign[of n a] by linarith

lemma div_upper: "0 < n \<Longrightarrow> (a::int) < n * (a div n) + n"
  using mult_div_mod_eq[of n a] pos_mod_bound[of n a] by linarith

text \<open>The estimate from the mean year length is at most one year off, either way.\<close>

lemma year_estimate_upper: "d < DayFromYear (1970 + (400 * d) div 146097 + 2)"
proof -
  define k where "k = (400 * d) div 146097"
  define A where "A = (k + 3) div 4"
  define B where "B = (k + 71) div 100"
  define C where "C = (k + 371) div 400"
  have 1: "400 * d < 146097 * k + 146097" unfolding k_def by (rule div_upper) simp
  have 2: "k + 3 < 4 * A + 4" unfolding A_def by (rule div_upper) simp
  have 3: "100 * B \<le> k + 71" unfolding B_def by (rule div_lower) simp
  have 4: "k + 371 < 400 * C + 400" unfolding C_def by (rule div_upper) simp
  have "DayFromYear (1970 + k + 2) = 365 * k + 730 + A - B + C"
    unfolding DayFromYear_def A_def B_def C_def by (simp add: algebra_simps)
  moreover have "d < 365 * k + 730 + A - B + C" using 1 2 3 4 by linarith
  ultimately show ?thesis unfolding k_def by simp
qed

lemma year_estimate_lower: "DayFromYear (1970 + (400 * d) div 146097 - 1) \<le> d"
proof -
  define k where "k = (400 * d) div 146097"
  define A where "A = k div 4"
  define B where "B = (k + 68) div 100"
  define C where "C = (k + 368) div 400"
  have 1: "146097 * k \<le> 400 * d" unfolding k_def by (rule div_lower) simp
  have 2: "4 * A \<le> k" unfolding A_def by (rule div_lower) simp
  have 3: "k + 68 < 100 * B + 100" unfolding B_def by (rule div_upper) simp
  have 4: "400 * C \<le> k + 368" unfolding C_def by (rule div_lower) simp
  have "DayFromYear (1970 + k - 1) = 365 * k - 365 + A - B + C"
    unfolding DayFromYear_def A_def B_def C_def by (simp add: algebra_simps)
  moreover have "365 * k - 365 + A - B + C \<le> d" using 1 2 3 4 by linarith
  ultimately show ?thesis unfolding k_def by simp
qed

lemma YearFromTime_bounds:
  "DayFromYear (YearFromTime t) \<le> Day t \<and> Day t < DayFromYear (YearFromTime t + 1)"
  using year_estimate_upper[of "Day t"] year_estimate_lower[of "Day t"]
  unfolding YearFromTime_def Let_def by (auto simp: algebra_simps)

text \<open>\<open>YearFromTime\<close> is the year ECMA-262 specifies: the largest \<open>y\<close> whose first day is
  not after the day of \<open>t\<close>.\<close>

lemma YearFromTime_greatest: "DayFromYear y \<le> Day t \<longleftrightarrow> y \<le> YearFromTime t"
proof
  assume a: "DayFromYear y \<le> Day t"
  show "y \<le> YearFromTime t"
  proof (rule ccontr)
    assume "\<not> y \<le> YearFromTime t"
    then have "YearFromTime t + 1 \<le> y" by simp
    then have "DayFromYear (YearFromTime t + 1) \<le> DayFromYear y" by (rule DayFromYear_mono)
    with a YearFromTime_bounds[of t] show False by linarith
  qed
next
  assume "y \<le> YearFromTime t"
  then have "DayFromYear y \<le> DayFromYear (YearFromTime t)" by (rule DayFromYear_mono)
  with YearFromTime_bounds[of t] show "DayFromYear y \<le> Day t" by linarith
qed

lemma DayWithinYear_bounds: "0 \<le> DayWithinYear t \<and> DayWithinYear t < 365 + InLeapYear t"
proof -
  have "DayFromYear (YearFromTime t + 1) = DayFromYear (YearFromTime t) + DaysInYear (YearFromTime t)"
    by (rule DayFromYear_step)
  with YearFromTime_bounds[of t] DaysInYear_cases[of "YearFromTime t"]
  show ?thesis unfolding DayWithinYear_def InLeapYear_def by auto
qed

lemma month_table:
  fixes d l :: int
  assumes "0 \<le> d" and "d < 365 + l" and "l = 0 \<or> l = 1"
  shows "length (filter (\<lambda>s. s \<le> d) (monthStart l)) - 1 < 12 \<and>
         1 \<le> d - monthStart l ! (length (filter (\<lambda>s. s \<le> d) (monthStart l)) - 1) + 1 \<and>
         d - monthStart l ! (length (filter (\<lambda>s. s \<le> d) (monthStart l)) - 1) + 1 \<le> 31"
proof -
  consider "d < 31" | "31 \<le> d \<and> d < 59 + l" | "59 + l \<le> d \<and> d < 90 + l"
    | "90 + l \<le> d \<and> d < 120 + l" | "120 + l \<le> d \<and> d < 151 + l"
    | "151 + l \<le> d \<and> d < 181 + l" | "181 + l \<le> d \<and> d < 212 + l"
    | "212 + l \<le> d \<and> d < 243 + l" | "243 + l \<le> d \<and> d < 273 + l"
    | "273 + l \<le> d \<and> d < 304 + l" | "304 + l \<le> d \<and> d < 334 + l" | "334 + l \<le> d"
    by linarith
  then show ?thesis
    using assms by cases (auto simp: monthStart_def)
qed

lemma MonthFromTime_lt: "MonthFromTime t < 12"
  and DateFromTime_bounds: "1 \<le> DateFromTime t \<and> DateFromTime t \<le> 31"
proof -
  have l: "InLeapYear t = 0 \<or> InLeapYear t = 1" unfolding InLeapYear_def by simp
  from DayWithinYear_bounds[of t] l
  have m: "length (filter (\<lambda>s. s \<le> DayWithinYear t) (monthStart (InLeapYear t))) - 1 < 12 \<and>
         1 \<le> DayWithinYear t - monthStart (InLeapYear t) !
              (length (filter (\<lambda>s. s \<le> DayWithinYear t) (monthStart (InLeapYear t))) - 1) + 1 \<and>
         DayWithinYear t - monthStart (InLeapYear t) !
              (length (filter (\<lambda>s. s \<le> DayWithinYear t) (monthStart (InLeapYear t))) - 1) + 1 \<le> 31"
    by (intro month_table) simp_all
  from m show "MonthFromTime t < 12" unfolding MonthFromTime_def by simp
  from m show "1 \<le> DateFromTime t \<and> DateFromTime t \<le> 31"
    unfolding DateFromTime_def MonthFromTime_def by simp
qed

text \<open>\<open>MakeDay\<close> gives back the day that year, month and date were taken from.\<close>

lemma MakeDay_inverse: "MakeDay (YearFromTime t) (MonthFromTime t) (DateFromTime t) = Day t"
  unfolding MakeDay_def DateFromTime_def DayWithinYear_def InLeapYear_def by simp

section \<open>Parsing what \<^verbatim>\<open>toISOString\<close> printed\<close>

lemma radix_value_snoc:
  "radix_value R tab (Z @ [c]) = R * radix_value R tab Z + digit_val tab c"
  by (simp add: radix_value_def)

lemma radix_value_pad: "0 \<le> n \<Longrightarrow> n < 10 ^ w \<Longrightarrow> radix_value 10 digit_of (pad w n) = n"
proof (induction w arbitrary: n)
  case 0
  then show ?case by (simp add: radix_value_def)
next
  case (Suc w)
  from Suc.prems have "0 \<le> n div 10" and "n div 10 < 10 ^ w" by simp_all
  then have "radix_value 10 digit_of (pad w (n div 10)) = n div 10" by (rule Suc.IH)
  then show ?case by (simp add: radix_value_snoc digit_val_digit_char)
qed

lemma pad_matches: "list_all2 atom_match (replicate w Digit) (pad w n)"
proof (induction w arbitrary: n)
  case 0
  show ?case by simp
next
  case (Suc w)
  have "replicate (Suc w) Digit = replicate w Digit @ [Digit]"
    by (simp add: replicate_append_same)
  moreover have "list_all2 atom_match (replicate w Digit @ [Digit])
                   (pad w (n div 10) @ [digit_char (n mod 10)])"
    using Suc[of "n div 10"] by (intro list_all2_appendI) (simp_all add: isDigit_digit_char)
  ultimately show ?case by simp
qed

lemma dateRegex_replicate:
  "dateRegex =
     replicate 4 Digit @ [Lit CHR ''-''] @ replicate 2 Digit @ [Lit CHR ''-''] @ replicate 2 Digit"
  by (simp add: dateRegex_def eval_nat_numeral)

lemma regex_pads: "regex_test dateRegex (pad 4 y @ ''-'' @ pad 2 m @ ''-'' @ pad 2 d)"
  unfolding regex_test_def dateRegex_replicate
  by (intro list_all2_appendI pad_matches) simp_all

lemma Date_parse_pads:
  assumes "0 \<le> y" "y \<le> 9999" "1 \<le> m" "m \<le> 12" "1 \<le> d" "d \<le> 31"
  shows "Date_parse (pad 4 y @ ''-'' @ pad 2 m @ ''-'' @ pad 2 d) =
         Num (MakeDate (MakeDay y (nat (m - 1)) d) 0)"
proof -
  let ?s = "pad 4 y @ ''-'' @ pad 2 m @ ''-'' @ pad 2 d"
  have a: "take 4 ?s = pad 4 y" by (simp add: length_pad)
  have b: "take 2 (drop 5 ?s) = pad 2 m" by (simp add: length_pad)
  have c: "take 2 (drop 8 ?s) = pad 2 d" by (simp add: length_pad)
  have y: "radix_value 10 digit_of (pad 4 y) = y" using assms by (intro radix_value_pad) simp_all
  have m: "radix_value 10 digit_of (pad 2 m) = m" using assms by (intro radix_value_pad) simp_all
  have d: "radix_value 10 digit_of (pad 2 d) = d" using assms by (intro radix_value_pad) simp_all
  show ?thesis
    unfolding Date_parse_def a b c y m d Let_def using regex_pads[of y m d] assms by simp
qed

lemma date_string_parses:
  assumes "0 \<le> YearFromTime t" "YearFromTime t \<le> 9999"
  shows "Date_parse (date_string t) = Num (Day t * msPerDay)"
    and "regex_test dateRegex (date_string t)"
proof -
  have s: "date_string t =
     pad 4 (YearFromTime t) @ ''-'' @ pad 2 (int (MonthFromTime t) + 1) @ ''-'' @ pad 2 (DateFromTime t)"
    using assms by (simp add: date_string_def year_string_def)
  have "Date_parse (date_string t) =
        Num (MakeDate (MakeDay (YearFromTime t) (nat (int (MonthFromTime t) + 1 - 1)) (DateFromTime t)) 0)"
    unfolding s using assms MonthFromTime_lt[of t] DateFromTime_bounds[of t]
    by (intro Date_parse_pads) simp_all
  then show "Date_parse (date_string t) = Num (Day t * msPerDay)"
    by (simp add: MakeDay_inverse MakeDate_def)
  show "regex_test dateRegex (date_string t)" unfolding s by (rule regex_pads)
qed

lemma YearFromTime_range:
  assumes "firstAPOD \<le> t" "t < 253402300800000"
  shows "1995 \<le> YearFromTime t \<and> YearFromTime t \<le> 9999"
proof -
  have "DayFromYear 1995 \<le> Day firstAPOD"
    by (simp add: DayFromYear_def Day_def firstAPOD_def msPerDay_def)
  also have "Day firstAPOD \<le> Day t"
    using assms(1) unfolding Day_def msPerDay_def by (intro zdiv_mono1) simp_all
  finally have lo: "1995 \<le> YearFromTime t" by (simp add: YearFromTime_greatest)
  have "Day t \<le> Day 253402300799999"
    using assms(2) unfolding Day_def msPerDay_def by (intro zdiv_mono1) simp_all
  also have "\<dots> < DayFromYear 10000" by (simp add: DayFromYear_def Day_def msPerDay_def)
  finally have "\<not> DayFromYear 10000 \<le> Day t" by simp
  then have "\<not> 10000 \<le> YearFromTime t" by (simp add: YearFromTime_greatest)
  with lo show ?thesis by simp
qed

lemma Date_parse_firstAPOD: "Date_parse ''1995-06-16'' = Num firstAPOD"
  by code_simp

lemma firstAPOD_midnight: "firstAPOD = Day firstAPOD * msPerDay"
  by (simp add: firstAPOD_def Day_def msPerDay_def)

lemma Day_mono: "a \<le> b \<Longrightarrow> Day a \<le> Day b"
  unfolding Day_def msPerDay_def by (intro zdiv_mono1) simp_all

lemma Day_floor: "Day t * msPerDay \<le> t"
  unfolding Day_def msPerDay_def using div_lower[of 86400000 t] by (simp add: mult.commute)

section \<open>Numbers read from headers\<close>

text \<open>Below \<open>2^53\<close> nothing is rounded; above, the nearest double is taken, ties to even.\<close>

lemma excess_bits_small: "n < 2 ^ 53 \<Longrightarrow> excess_bits f n = 0"
  by (cases f) simp_all

lemma nearest_double_exact: "n < 2 ^ 53 \<Longrightarrow> nearest_double f n = n"
  by (simp add: nearest_double_def excess_bits_small)

lemma isDigit_plain:
  "isDigit c \<Longrightarrow> \<not> isWhiteSpace c \<and> c \<noteq> CHR ''-'' \<and> c \<noteq> CHR ''+'' \<and> c \<noteq> CHR ''x'' \<and> c \<noteq> CHR ''X''"
  by (auto simp: isDigit_def digit_of_def isWhiteSpace_def split: if_splits)

text \<open>\<^verbatim>\<open>parseInt\<close> reads a string of decimal digits as its value.\<close>

lemma parseInt_digits:
  assumes "Z \<noteq> []" and "\<forall>c \<in> set Z. isDigit c" and "radix_value 10 digit_of Z < 2 ^ 53"
  shows "parseInt Z = Num (radix_value 10 digit_of Z)"
proof -
  from assms(1) obtain c cs where Z: "Z = c # cs" by (cases Z) auto
  with assms(2) have c: "isDigit c" by simp
  have d: "dropWhile isWhiteSpace Z = Z" using isDigit_plain[OF c] by (simp add: Z)
  have h: "\<not> (case Z of a # b # _ \<Rightarrow> a = CHR ''0'' \<and> (b = CHR ''x'' \<or> b = CHR ''X'') | _ \<Rightarrow> False)"
  proof (cases cs)
    case Nil
    then show ?thesis by (simp add: Z)
  next
    case (Cons b bs)
    with assms(2) Z have "isDigit b" by simp
    then show ?thesis using isDigit_plain[of b] by (simp add: Z Cons)
  qed
  have t: "takeWhile (\<lambda>c. digit_of c \<noteq> None) Z = Z"
    using assms(2) by (simp add: takeWhile_eq_all_conv isDigit_def)
  have n: "nearest_double (4 * length Z) (radix_value 10 digit_of Z) = radix_value 10 digit_of Z"
    using assms(3) by (rule nearest_double_exact)
  have big: "\<not> (2::int) ^ 1024 \<le> radix_value 10 digit_of Z"
  proof -
    have "(2::int) ^ 53 \<le> 2 ^ 1024" by (rule power_increasing) simp_all
    with assms(3) show ?thesis by linarith
  qed
  have s: "(case Z of c # _ \<Rightarrow> if c = CHR ''-'' then - 1 else 1 | [] \<Rightarrow> (1::int)) = 1"
    using isDigit_plain[OF c] by (simp add: Z)
  have s1: "(case Z of c # r \<Rightarrow> if c = CHR ''-'' \<or> c = CHR ''+'' then r else Z | [] \<Rightarrow> Z) = Z"
    using isDigit_plain[OF c] by (simp add: Z)
  from h have hex: "(case Z of a # b # _ \<Rightarrow> a = CHR ''0'' \<and> (b = CHR ''x'' \<or> b = CHR ''X'') | _ \<Rightarrow> False) = False"
    by simp
  show ?thesis
    unfolding parseInt_def Let_def d s s1 hex if_False t n using big assms(1) by simp
qed

lemma parseInt_pad:
  assumes "0 < w" and "0 \<le> n" and "n < 10 ^ w" and "n < 2 ^ 53"
  shows "parseInt (pad w n) = Num n"
proof -
  have v: "radix_value 10 digit_of (pad w n) = n" using assms(2,3) by (rule radix_value_pad)
  have "pad w n \<noteq> []" using assms(1) length_pad[of w n] by auto
  moreover have "\<forall>c \<in> set (pad w n). isDigit c" using pad_digits by blast
  ultimately have "parseInt (pad w n) = Num (radix_value 10 digit_of (pad w n))"
    using assms(4) by (intro parseInt_digits) (simp_all add: v)
  then show ?thesis by (simp add: v)
qed

lemma excess_bits_enough:
  "0 \<le> n \<Longrightarrow> n < 2 ^ (53 + f) \<Longrightarrow> n div 2 ^ excess_bits f n < 2 ^ 53"
proof (induction f arbitrary: n)
  case 0
  then show ?case by simp
next
  case (Suc f)
  show ?case
  proof (cases "n < 2 ^ 53")
    case True
    then show ?thesis by simp
  next
    case False
    define M :: int where "M = 2 ^ (53 + f)"
    have "(2::int) ^ (53 + Suc f) = 2 * M"
      unfolding M_def by (simp only: add_Suc_right power_Suc)
    with Suc.prems(2) have "n < 2 * M" by (simp only:)
    then have "n div 2 < M" by linarith
    then have h: "n div 2 < 2 ^ (53 + f)" by (simp only: M_def)
    from Suc.prems(1) have "0 \<le> n div 2" by simp
    note this h
    then have "n div 2 div 2 ^ excess_bits f (n div 2) < 2 ^ 53" by (rule Suc.IH)
    moreover have "n div 2 ^ Suc (excess_bits f (n div 2)) = n div 2 div 2 ^ excess_bits f (n div 2)"
      by (simp add: zdiv_zmult2_eq)
    ultimately show ?thesis using False by simp
  qed
qed

lemma parseInt_rounds_to_even:
  "parseInt ''9007199254740993'' = Num 9007199254740992 \<and>
   parseInt ''9007199254740995'' = Num 9007199254740996"
  by code_simp

section \<open>The format check, spelled out\<close>

lemma dateRegex_shape:
  "regex_test dateRegex s \<longleftrightarrow>
     (\<exists>y1 y2 y3 y4 m1 m2 d1 d2.
        s = [y1, y2, y3, y4, CHR ''-'', m1, m2, CHR ''-'', d1, d2] \<and>
        isDigit y1 \<and> isDigit y2 \<and> isDigit y3 \<and> isDigit y4 \<and>
        isDigit m1 \<and> isDigit m2 \<and> isDigit d1 \<and> isDigit d2)"
  by (auto simp: regex_test_def dateRegex_def list_all2_Cons1)

lemma isDigit_iff: "isDigit c \<longleftrightarrow> c \<in> set ''0123456789''"
  by (auto simp: isDigit_def digit_of_def)

lemma regex_2024_13_40: "regex_test dateRegex ''2024-13-40''"
  by (simp add: regex_test_def dateRegex_def isDigit_def digit_of_def)

section \<open>The range check on dates that parse\<close>

lemma validate_parsed:
  assumes "regex_test dateRegex s" and "Date_parse s = Num t"
  shows "validate env (Some s) = (if firstAPOD \<le> t \<and> t \<le> now env then Inr s else Inl RANGE_ERROR)"
proof -
  from assms(1) have "s \<noteq> []" by (auto simp: regex_test_def dateRegex_def)
  with assms show ?thesis
    by (auto simp: validate_def Let_def Date_parse_firstAPOD)
qed

lemma validate_1990: "validate env (Some ''1990-01-01'') = Inl RANGE_ERROR"
proof -
  have r: "regex_test dateRegex ''1990-01-01''"
    by (simp add: regex_test_def dateRegex_def isDigit_def digit_of_def)
  have p: "Date_parse ''1990-01-01'' = Num 631152000000" by code_simp
  show ?thesis by (simp add: validate_parsed[OF r p] firstAPOD_def)
qed

lemma validate_2000:
  "validate env (Some ''2000-01-01'') =
     (if 946684800000 \<le> now env then Inr ''2000-01-01'' else Inl RANGE_ERROR)"
proof -
  have r: "regex_test dateRegex ''2000-01-01''"
    by (simp add: regex_test_def dateRegex_def isDigit_def digit_of_def)
  have p: "Date_parse ''2000-01-01'' = Num 946684800000" by code_simp
  show ?thesis by (simp add: validate_parsed[OF r p] firstAPOD_def)
qed

lemma validate_first_day:
  "firstAPOD \<le> now env \<Longrightarrow> validate env (Some ''1995-06-16'') = Inr ''1995-06-16''"
proof -
  have r: "regex_test dateRegex ''1995-06-16''"
    by (simp add: regex_test_def dateRegex_def isDigit_def digit_of_def)
  assume "firstAPOD \<le> now env"
  then show ?thesis by (simp add: validate_parsed[OF r Date_parse_firstAPOD])
qed

text \<open>The date of a moment between the first picture and the clock passes both checks;
  the clock's own date, today, is one of them.\<close>

lemma validate_date_string:
  assumes "firstAPOD \<le> t" and "t \<le> now env" and "now env < 253402300800000"
  shows "validate env (Some (date_string t)) = Inr (date_string t)"
proof -
  from assms have "firstAPOD \<le> t" "t < 253402300800000" by simp_all
  then have y: "0 \<le> YearFromTime t" "YearFromTime t \<le> 9999"
    using YearFromTime_range[of t] by simp_all
  have p: "Date_parse (date_string t) = Num (Day t * msPerDay)"
    and r: "regex_test dateRegex (date_string t)"
    using y by (rule date_string_parses)+
  have "Day firstAPOD \<le> Day t" using assms(1) by (rule Day_mono)
  then have lo: "firstAPOD \<le> Day t * msPerDay"
    by (subst firstAPOD_midnight) (simp add: msPerDay_def)
  have hi: "Day t * msPerDay \<le> now env" using Day_floor[of t] assms(2) by linarith
  show ?thesis using lo hi by (simp add: validate_parsed[OF r p])
qed

lemma validate_today:
  "firstAPOD \<le> now env \<Longrightarrow> now env < 253402300800000 \<Longrightarrow>
   validate env (Some (todayKey env)) = Inr (todayKey env)"
  unfolding todayKey_date_string by (rule validate_date_string) simp_all

section \<open>The random moment\<close>

text \<open>Rounding to the nearest double is monotone, and exact on the integers that are
  doubles; zero and the difference of two time values are such integers.\<close>

lemma randomTime_bounds:
  assumes "firstAPOD \<le> now env" and "0 \<le> Math_random env" and "Math_random env < 1"
    and "mono (to_double env)" and "to_double env 0 = 0"
    and "to_double env (of_int (now env - firstAPOD)) = of_int (now env - firstAPOD)"
  shows "firstAPOD \<le> randomTime env \<and> randomTime env \<le> now env"
proof -
  define timeDiff where "timeDiff = now env - firstAPOD"
  define p where "p = to_double env (Math_random env * of_int timeDiff)"
  have td: "0 \<le> timeDiff" using assms(1) by (simp add: timeDiff_def)
  have "0 \<le> Math_random env * of_int timeDiff" using assms(2) td by simp
  with assms(4) have "to_double env 0 \<le> p" unfolding p_def by (rule monoD)
  then have lo: "0 \<le> \<lfloor>p\<rfloor>" using assms(5) by simp
  have "Math_random env * of_int timeDiff \<le> 1 * of_int timeDiff"
    using assms(3) td by (intro mult_right_mono) simp_all
  then have "Math_random env * of_int timeDiff \<le> of_int timeDiff" by simp
  with assms(4) have "p \<le> to_double env (of_int timeDiff)" unfolding p_def by (rule monoD)
  then have "p \<le> of_int timeDiff" using assms(6) by (simp add: timeDiff_def)
  then have "\<lfloor>p\<rfloor> \<le> \<lfloor>(of_int timeDiff :: real)\<rfloor>" by (rule floor_mono)
  then have hi: "\<lfloor>p\<rfloor> \<le> timeDiff" by simp
  have "randomTime env = firstAPOD + \<lfloor>p\<rfloor>"
    by (simp add: randomTime_def Let_def p_def timeDiff_def)
  with lo hi show ?thesis by (simp add: timeDiff_def)
qed

section \<open>The claims\<close>

subsection \<open>Cache hits\<close>

text \<open>
  C1. A fetch for a date key that is in the cache returns the record stored under it,
  leaves the cache and the rate-limit snapshot as they were and makes no outbound call.
  The key is the argument itself, or today's key when the argument is omitted; a date
  key is a non-empty string (the empty string is falsy and stands for an omitted
  argument).
\<close>

theorem fetchAPOD_cache_hit:
  assumes "apodCache st k = Some r"
    and "dateArg = Some k \<and> k \<noteq> [] \<or> \<not> truthy dateArg \<and> k = todayKey env"
  shows "fetchAPOD env dateArg st = (Inr r, st, [])"
proof -
  from assms(2) have "dateKey_of env dateArg = k"
    by (auto simp: dateKey_of_Some dateKey_of_falsy)
  with assms(1) show ?thesis by (simp add: fetchAPOD_hit)
qed

theorem fetchAPOD_cache_hit_witness:
  "apodCache example_state ''2024-11-01'' = Some example_apod \<and>
   fetchAPOD example_env (Some ''2024-11-01'') example_state =
     (Inr example_apod, example_state, [])"
  using fetchAPOD_cache_hit[where st = example_state and k = "''2024-11-01''"
      and r = example_apod and dateArg = "Some ''2024-11-01''" and env = example_env]
  by (simp add: example_state_def)

subsection \<open>The format check\<close>

text \<open>
  C2, as stated, fails: the string \<^verbatim>\<open>2024-13-40\<close> is four digits, a hyphen, two digits, a
  hyphen and two digits, so it matches the pattern and the handler does not take the
  format-error return.
\<close>

theorem validate_format_counterexample:
  "validate example_env (Some ''2024-13-40'') \<noteq> Inl FORMAT_ERROR"
  by (simp add: validate_def Let_def regex_test_def dateRegex_def isDigit_def digit_of_def)

text \<open>
  C2, amended. The date route answers with the format error exactly when the \<^verbatim>\<open>date\<close>
  field is absent, empty or does not match \<^verbatim>\<open>^\d{4}-\d{2}-\d{2}$\<close>, and it does so before
  any fetch: the state is as before and no call is made. A string that matches the
  pattern, whatever its digits, is never a format error, and \<^verbatim>\<open>2024-13-40\<close> matches it.
\<close>

theorem validate_format_error:
  "(validate env selectedDate = Inl FORMAT_ERROR \<longleftrightarrow>
      \<not> truthy selectedDate \<or> \<not> regex_test dateRegex (the selectedDate)) \<and>
   (validate env selectedDate = Inl FORMAT_ERROR \<longrightarrow>
      post_get_date_picture env selectedDate st =
        (\<lparr>http_status = 200, view = ''index.ejs'', view_data = None,
          view_error = Some ''Invalid date format. Please use YYYY-MM-DD.''\<rparr>, st, [])) \<and>
   regex_test dateRegex ''2024-13-40''"
  by (auto simp: validate_def Let_def post_get_date_picture_def validation_message_def
      regex_2024_13_40)

theorem validate_format_error_witness:
  "validate example_env (Some ''02.11.2024'') = Inl FORMAT_ERROR \<and>
   post_get_date_picture example_env (Some ''02.11.2024'') example_state =
     (\<lparr>http_status = 200, view = ''index.ejs'', view_data = None,
       view_error = Some ''Invalid date format. Please use YYYY-MM-DD.''\<rparr>, example_state, [])"
  using validate_format_error[where env = example_env and selectedDate = "Some ''02.11.2024''"
      and st = example_state]
  by (simp add: regex_test_def dateRegex_def isDigit_def digit_of_def)

subsection \<open>Error messages\<close>

text \<open>
  C3, as stated, fails for \<^verbatim>\<open>handleError\<close>: what it renders is
  \<^verbatim>\<open>error.response?.data?.msg || errorMessage\<close>, so a 429 answer whose body has a \<^verbatim>\<open>msg\<close>
  field is shown with that field and not with the fixed rate-limit message.
\<close>

theorem handleError_429_body_counterexample:
  "status_of (example_error 429) = Some 429 \<and>
   view_error (handleError (example_error 429) ''Failed to fetch random picture.'') =
     Some ''Internal Service Error'' \<and>
   view_error (handleError (example_error 429) ''Failed to fetch random picture.'') \<noteq>
     Some rate_limit_message"
  by (simp add: handleError_view example_error_def status_of_def body_msg_def
      rate_limit_message_def warning_sign_def)

text \<open>
  C3, amended. The message computed from the class of the failure (\<^verbatim>\<open>getErrorMessage\<close>,
  and the variable \<^verbatim>\<open>errorMessage\<close> of \<^verbatim>\<open>handleError\<close>) is the fixed rate-limit message for
  status 429, the fixed try-again-later message for a status of 500 or more, and the
  fixed timeout message for a failure without a response whose code is
  \<^verbatim>\<open>ECONNABORTED\<close>; it does not depend on the error body. \<^verbatim>\<open>handleError\<close> displays this
  message when the body has no non-empty \<^verbatim>\<open>msg\<close> field, which is always so for a failure
  without a response, and the body's \<^verbatim>\<open>msg\<close> otherwise.
\<close>

theorem error_messages_by_class:
  "(status_of err = Some 429 \<longrightarrow> getErrorMessage err c = rate_limit_message) \<and>
   (status_of err = Some s \<and> 500 \<le> s \<longrightarrow> getErrorMessage err c = server_error_message) \<and>
   (response err = None \<and> code err = Some ''ECONNABORTED'' \<longrightarrow>
      getErrorMessage err c = timeout_message \<and>
      view_error (handleError err c) = Some timeout_message) \<and>
   getErrorMessage (err\<lparr>response := map_option (\<lambda>r. r\<lparr>err_data := b\<rparr>) (response err)\<rparr>) c =
     getErrorMessage err c \<and>
   view_error (handleError err c) =
     Some (if truthy (body_msg err) then the (body_msg err) else getErrorMessage err c)"
  by (cases "response err")
     (auto simp: getErrorMessage_def status_of_def handleError_view body_msg_def)

theorem error_messages_by_class_witness:
  "getErrorMessage (example_error 429) ''Failed to fetch random picture.'' = rate_limit_message \<and>
   getErrorMessage (example_error 503) ''Failed to fetch random picture.'' = server_error_message \<and>
   getErrorMessage timeout_error ''Failed to fetch random picture.'' = timeout_message \<and>
   view_error (handleError timeout_error ''Failed to fetch random picture.'') = Some timeout_message"
  using error_messages_by_class[where err = "example_error 429" and s = 429
      and c = "''Failed to fetch random picture.''"]
    error_messages_by_class[where err = "example_error 503" and s = 503
      and c = "''Failed to fetch random picture.''"]
    error_messages_by_class[where err = timeout_error and s = 0
      and c = "''Failed to fetch random picture.''"]
  by (simp add: example_error_def timeout_error_def status_of_def)

subsection \<open>The today key\<close>

text \<open>
  C4. When the fetch helper is called without a date, today's key is not in the cache
  and the provider answers with a record whose \<^verbatim>\<open>date\<close> is not today's key, the record is
  stored under both keys; a later fetch for today's key, given explicitly or by
  omission, is a cache hit that returns this record.
\<close>

theorem fetchAPOD_today_both_keys:
  assumes "\<not> truthy dateArg"
    and "apodCache st (todayKey env) = None"
    and "axios_get env (request_of env dateArg) = Inr resp"
    and "date (data resp) \<noteq> todayKey env"
    and "fetchAPOD env dateArg st = (res, st', calls)"
  shows "res = Inr (data resp) \<and>
         apodCache st' (date (data resp)) = Some (data resp) \<and>
         apodCache st' (todayKey env) = Some (data resp) \<and>
         fetchAPOD env' (Some (todayKey env)) st' = (Inr (data resp), st', []) \<and>
         fetchAPOD env dateArg st' = (Inr (data resp), st', [])"
proof -
  have k: "dateKey_of env dateArg = todayKey env"
    using assms(1) by (rule dateKey_of_falsy)
  have "fetchAPOD env dateArg st =
     (Inr (data resp),
      \<lparr>RATE_LIMIT = updateRateLimitFromHeaders (headers resp) (RATE_LIMIT st),
       apodCache = (apodCache st)(date (data resp) \<mapsto> data resp, todayKey env \<mapsto> data resp)\<rparr>,
      [request_of env dateArg])"
    using fetchAPOD_miss_success[of st env dateArg resp] assms(1-4) k by simp
  with assms(5) have res: "res = Inr (data resp)"
    and st': "apodCache st' =
      (apodCache st)(date (data resp) \<mapsto> data resp, todayKey env \<mapsto> data resp)"
    by auto
  have a: "apodCache st' (date (data resp)) = Some (data resp)"
    using assms(4) by (simp add: st')
  have b: "apodCache st' (todayKey env) = Some (data resp)"
    by (simp add: st')
  have c: "fetchAPOD env' (Some (todayKey env)) st' = (Inr (data resp), st', [])"
    using b todayKey_nonempty[of env] by (simp add: fetchAPOD_hit dateKey_of_Some)
  have d: "fetchAPOD env dateArg st' = (Inr (data resp), st', [])"
    using b k by (simp add: fetchAPOD_hit)
  from res a b c d show ?thesis by simp
qed

theorem fetchAPOD_today_both_keys_witness:
  "todayKey example_env = ''2024-11-02'' \<and>
   date (data example_response) = ''2024-11-01'' \<and>
   apodCache (fst (snd (fetchAPOD example_env None initial_state))) ''2024-11-01'' =
     Some example_apod_later \<and>
   apodCache (fst (snd (fetchAPOD example_env None initial_state))) ''2024-11-02'' =
     Some example_apod_later \<and>
   fetchAPOD failing_env (Some ''2024-11-02'') (fst (snd (fetchAPOD example_env None initial_state))) =
     (Inr example_apod_later, fst (snd (fetchAPOD example_env None initial_state)), [])"
proof -
  have 1: "\<not> truthy None" by simp
  have 2: "apodCache initial_state (todayKey example_env) = None"
    by (simp add: initial_state_def)
  have 3: "axios_get example_env (request_of example_env None) = Inr example_response"
    by (simp add: example_env_def)
  have 4: "date (data example_response) \<noteq> todayKey example_env"
    by (simp add: todayKey_example example_response_def example_apod_later_def)
  have 5: "fetchAPOD example_env None initial_state =
      (fst (fetchAPOD example_env None initial_state),
       fst (snd (fetchAPOD example_env None initial_state)),
       snd (snd (fetchAPOD example_env None initial_state)))"
    by simp
  from fetchAPOD_today_both_keys[OF 1 2 3 4 5, where env' = failing_env]
  show ?thesis
    by (simp add: todayKey_example example_response_def example_apod_later_def)
qed

subsection \<open>The range check\<close>

text \<open>
  C5 holds for every string that is a calendar date (lemmas \<open>validate_parsed\<close>,
  \<open>validate_1990\<close>, \<open>validate_2000\<close>, \<open>validate_first_day\<close> and \<open>validate_today\<close>
  above), but not for every string that passes the format check: \<^verbatim>\<open>2024-13-40\<close> passes
  it, \<^verbatim>\<open>new Date("2024-13-40")\<close> is an invalid date, both comparisons with an invalid
  date are false, and the handler goes on to fetch with this string (from the initial
  state, with a call to the provider).
\<close>

theorem validate_invalid_date_accepted:
  "Date_parse ''2024-13-40'' = NaN \<and>
   validate env (Some ''2024-13-40'') = Inr ''2024-13-40'' \<and>
   snd (snd (post_get_date_picture env (Some ''2024-13-40'') initial_state)) =
     [request_of env (Some ''2024-13-40'')]"
proof -
  have p: "Date_parse ''2024-13-40'' = NaN" by code_simp
  have v: "validate env (Some ''2024-13-40'') = Inr ''2024-13-40''"
    by (simp add: validate_def regex_2024_13_40 p)
  have k: "dateKey_of env (Some ''2024-13-40'') = ''2024-13-40''" by (simp add: dateKey_of_def)
  have "apodCache initial_state ''2024-13-40'' = None" by (simp add: initial_state_def)
  then have "snd (snd (post_get_date_picture env (Some ''2024-13-40'') initial_state)) =
          [request_of env (Some ''2024-13-40'')]"
    using fetchAPOD_miss_calls[of initial_state env "Some ''2024-13-40''"]
    by (simp add: post_get_date_picture_def v k render_result_calls)
  with p v show ?thesis by simp
qed

theorem validate_invalid_date_accepted_witness:
  "validate example_env (Some ''2024-13-40'') = Inr ''2024-13-40'' \<and>
   snd (snd (post_get_date_picture example_env (Some ''2024-13-40'') initial_state)) =
     [\<lparr>req_url = API_URL, params_api_key = ''DEMO_KEY'', params_date = Some ''2024-13-40'',
       req_timeout = 25000\<rparr>]"
  using validate_invalid_date_accepted[of example_env]
  by (simp add: request_of_def example_env_def)

subsection \<open>Other failures\<close>

text \<open>
  C6, as stated, fails: the body's \<^verbatim>\<open>msg\<close> takes precedence in every class of failure
  that has a response, not in the class OTHER only. A 503 answer whose body has a
  \<^verbatim>\<open>msg\<close> field is shown with that field and not with the try-again-later message.
\<close>

theorem handleError_503_body_counterexample:
  "status_of (example_error 503) = Some 503 \<and>
   view_error (handleError (example_error 503) ''Failed to fetch random picture.'') =
     Some ''Internal Service Error'' \<and>
   view_error (handleError (example_error 503) ''Failed to fetch random picture.'') \<noteq>
     Some server_error_message"
  by (simp add: handleError_view example_error_def status_of_def body_msg_def
      server_error_message_def warning_sign_def)

text \<open>
  C6, amended. For a failure that is neither a 429, nor a status of 500 or more, nor an
  \<^verbatim>\<open>ECONNABORTED\<close>, the computed message is the caller's default, a space and the raw error
  text. \<^verbatim>\<open>handleError\<close> displays it unless the error body has a non-empty \<^verbatim>\<open>msg\<close> field;
  such a field is displayed instead, and this holds in every class of failure.
\<close>

theorem other_error_message:
  "(status_of err \<noteq> Some 429 \<and> (\<forall>s. status_of err = Some s \<longrightarrow> s < 500) \<and>
    code err \<noteq> Some ''ECONNABORTED'' \<longrightarrow>
      getErrorMessage err c = c @ '' '' @ message err \<and>
      view_error (handleError err c) =
        Some (if truthy (body_msg err) then the (body_msg err) else c @ '' '' @ message err)) \<and>
   (truthy (body_msg err) \<longrightarrow> view_error (handleError err c) = body_msg err)"
  by (cases "status_of err"; cases "body_msg err") (auto simp: getErrorMessage_def handleError_view)

theorem other_error_message_witness:
  "getErrorMessage (example_error 400) ''Failed to fetch random picture.'' =
     ''Failed to fetch random picture. Request failed'' \<and>
   view_error (handleError (example_error 400) ''Failed to fetch random picture.'') =
     Some ''Internal Service Error''"
  using other_error_message[where err = "example_error 400"
      and c = "''Failed to fetch random picture.''"]
  by (simp add: example_error_def status_of_def body_msg_def)

subsection \<open>The rate-limit snapshot\<close>

text \<open>
  C7. After \<^verbatim>\<open>updateRateLimitFromHeaders\<close> each of the two fields holds \<^verbatim>\<open>parseInt\<close> of its
  own header when that header is present (and not empty), and its old value otherwise;
  \<^verbatim>\<open>resetTime\<close> is never touched. \<^verbatim>\<open>parseInt\<close> reads a string of decimal digits below
  \<open>2^53\<close> as its value, so with the headers \<^verbatim>\<open>x-ratelimit-limit: 1000\<close> and
  \<^verbatim>\<open>x-ratelimit-remaining: 950\<close> the snapshot becomes limit 1000, remaining 950. After a
  successful outbound call the snapshot is the old one updated from the headers of the
  response.
\<close>

theorem rate_limit_from_headers:
  "limit (updateRateLimitFromHeaders hs rl) =
     (if truthy (hs ''x-ratelimit-limit'') then parseInt (the (hs ''x-ratelimit-limit''))
      else limit rl) \<and>
   remaining (updateRateLimitFromHeaders hs rl) =
     (if truthy (hs ''x-ratelimit-remaining'') then parseInt (the (hs ''x-ratelimit-remaining''))
      else remaining rl) \<and>
   resetTime (updateRateLimitFromHeaders hs rl) = resetTime rl \<and>
   parseInt ''1000'' = Num 1000 \<and> parseInt ''950'' = Num 950 \<and>
   (0 < w \<and> 0 \<le> n \<and> n < 10 ^ w \<and> n < 2 ^ 53 \<longrightarrow> parseInt (pad w n) = Num n) \<and>
   (hs ''x-ratelimit-limit'' = Some ''1000'' \<and> hs ''x-ratelimit-remaining'' = Some ''950'' \<longrightarrow>
      updateRateLimitFromHeaders hs rl = rl\<lparr>limit := Num 1000, remaining := Num 950\<rparr>) \<and>
   (hs ''x-ratelimit-limit'' = None \<longrightarrow>
      limit (updateRateLimitFromHeaders hs rl) = limit rl) \<and>
   (hs ''x-ratelimit-remaining'' = None \<longrightarrow>
      remaining (updateRateLimitFromHeaders hs rl) = remaining rl) \<and>
   (apodCache st (dateKey_of env dateArg) = None \<and>
    axios_get env (request_of env dateArg) = Inr resp \<longrightarrow>
      RATE_LIMIT (fst (snd (fetchAPOD env dateArg st))) =
        updateRateLimitFromHeaders (headers resp) (RATE_LIMIT st))"
  by (simp add: updateRateLimitFromHeaders_def parseInt_1000 parseInt_950 parseInt_pad
      fetchAPOD_miss_success)

theorem rate_limit_from_headers_witness:
  "remaining (RATE_LIMIT (fst (snd (fetchAPOD example_env None initial_state)))) = Num 950 \<and>
   limit (RATE_LIMIT (fst (snd (fetchAPOD example_env None initial_state)))) = Num 1000 \<and>
   updateRateLimitFromHeaders Map.empty (RATE_LIMIT example_state) = RATE_LIMIT example_state \<and>
   remaining (updateRateLimitFromHeaders [''x-ratelimit-remaining'' \<mapsto> ''7''] (RATE_LIMIT example_state)) =
     Num 7 \<and>
   limit (updateRateLimitFromHeaders [''x-ratelimit-remaining'' \<mapsto> ''7''] (RATE_LIMIT example_state)) =
     Num 1000 \<and>
   limit (updateRateLimitFromHeaders [''x-ratelimit-limit'' \<mapsto> ''0040''] (RATE_LIMIT example_state)) =
     Num 40"
proof -
  have a: "apodCache initial_state (dateKey_of example_env None) = None"
    by (simp add: initial_state_def)
  have b: "axios_get example_env (request_of example_env None) = Inr example_response"
    by (simp add: example_env_def)
  have c: "headers example_response ''x-ratelimit-limit'' = Some ''1000'' \<and>
           headers example_response ''x-ratelimit-remaining'' = Some ''950''"
    by (simp add: example_response_def)
  from rate_limit_from_headers[where hs = "headers example_response"
      and rl = "RATE_LIMIT initial_state" and st = initial_state and env = example_env
      and dateArg = None and resp = example_response] a b c
  have 1: "remaining (RATE_LIMIT (fst (snd (fetchAPOD example_env None initial_state)))) = Num 950 \<and>
        limit (RATE_LIMIT (fst (snd (fetchAPOD example_env None initial_state)))) = Num 1000"
    by simp
  from rate_limit_from_headers[where hs = Map.empty and rl = "RATE_LIMIT example_state"]
  have 2: "updateRateLimitFromHeaders Map.empty (RATE_LIMIT example_state) = RATE_LIMIT example_state"
    by (simp add: updateRateLimitFromHeaders_def)
  have p7: "pad 1 7 = ''7''" by code_simp
  have p40: "pad 4 40 = ''0040''" by code_simp
  note r7 = rate_limit_from_headers[where hs = "[''x-ratelimit-remaining'' \<mapsto> ''7'']"
      and rl = "RATE_LIMIT example_state" and w = 1 and n = 7]
  from r7 have "0 < (1::nat) \<and> (0::int) \<le> 7 \<and> (7::int) < 10 ^ 1 \<and> (7::int) < 2 ^ 53 \<longrightarrow>
      parseInt (pad 1 7) = Num 7"
    by blast
  then have "parseInt (pad 1 7) = Num 7" by simp
  then have v7: "parseInt ''7'' = Num 7" unfolding p7 .
  from r7 have "remaining (updateRateLimitFromHeaders [''x-ratelimit-remaining'' \<mapsto> ''7'']
             (RATE_LIMIT example_state)) =
       (if truthy ([''x-ratelimit-remaining'' \<mapsto> ''7''] ''x-ratelimit-remaining'')
        then parseInt (the ([''x-ratelimit-remaining'' \<mapsto> ''7''] ''x-ratelimit-remaining''))
        else remaining (RATE_LIMIT example_state))"
    and "limit (updateRateLimitFromHeaders [''x-ratelimit-remaining'' \<mapsto> ''7'']
             (RATE_LIMIT example_state)) =
       (if truthy ([''x-ratelimit-remaining'' \<mapsto> ''7''] ''x-ratelimit-limit'')
        then parseInt (the ([''x-ratelimit-remaining'' \<mapsto> ''7''] ''x-ratelimit-limit''))
        else limit (RATE_LIMIT example_state))"
    by blast+
  then have 3: "remaining (updateRateLimitFromHeaders [''x-ratelimit-remaining'' \<mapsto> ''7'']
             (RATE_LIMIT example_state)) = Num 7 \<and>
           limit (updateRateLimitFromHeaders [''x-ratelimit-remaining'' \<mapsto> ''7'']
             (RATE_LIMIT example_state)) = Num 1000"
    by (simp add: v7 example_state_def)
  note r40 = rate_limit_from_headers[where hs = "[''x-ratelimit-limit'' \<mapsto> ''0040'']"
      and rl = "RATE_LIMIT example_state" and w = 4 and n = 40]
  from r40 have "0 < (4::nat) \<and> (0::int) \<le> 40 \<and> (40::int) < 10 ^ 4 \<and> (40::int) < 2 ^ 53 \<longrightarrow>
      parseInt (pad 4 40) = Num 40"
    by blast
  then have "parseInt (pad 4 40) = Num 40" by simp
  then have v40: "parseInt ''0040'' = Num 40" unfolding p40 .
  from r40 have "limit (updateRateLimitFromHeaders [''x-ratelimit-limit'' \<mapsto> ''0040'']
             (RATE_LIMIT example_state)) =
       (if truthy ([''x-ratelimit-limit'' \<mapsto> ''0040''] ''x-ratelimit-limit'')
        then parseInt (the ([''x-ratelimit-limit'' \<mapsto> ''0040''] ''x-ratelimit-limit''))
        else limit (RATE_LIMIT example_state))"
    by blast
  then have 4: "limit (updateRateLimitFromHeaders [''x-ratelimit-limit'' \<mapsto> ''0040'']
             (RATE_LIMIT example_state)) = Num 40"
    by (simp add: v40)
  from 1 2 3 4 show ?thesis by simp
qed

subsection \<open>The random date\<close>

text \<open>
  C8. With the clock not before 1995-06-16 and a random fraction in \<open>[0, 1)\<close>, the random
  route's date is the ISO date of the moment \<open>first + floor (fraction * (now - first))\<close>
  (the product rounded to a double, by a rounding that is monotone and exact at zero
  and at \<open>now - first\<close>). This moment lies between 1995-06-16T00:00Z and the clock, so
  its day is between the day of the first picture and today; while the clock is before
  the year 10000 the date is accepted by the checks of the date route (it has the shape
  \<^verbatim>\<open>YYYY-MM-DD\<close> and, parsed, lies in the range from 1995-06-16 to now).
\<close>

theorem randomDate_within_range:
  assumes "firstAPOD \<le> now env" and "0 \<le> Math_random env" and "Math_random env < 1"
    and "mono (to_double env)" and "to_double env 0 = 0"
    and "to_double env (of_int (now env - firstAPOD)) = of_int (now env - firstAPOD)"
  shows "randomDate env = date_string (randomTime env) \<and>
         randomTime env =
           firstAPOD + \<lfloor>to_double env (Math_random env * of_int (now env - firstAPOD))\<rfloor> \<and>
         firstAPOD \<le> randomTime env \<and> randomTime env \<le> now env \<and>
         Day firstAPOD \<le> Day (randomTime env) \<and> Day (randomTime env) \<le> Day (now env) \<and>
         (now env < 253402300800000 \<longrightarrow>
            validate env (Some (randomDate env)) = Inr (randomDate env))"
proof -
  have b: "firstAPOD \<le> randomTime env \<and> randomTime env \<le> now env"
    using assms by (rule randomTime_bounds)
  have s: "randomDate env = date_string (randomTime env)"
    unfolding randomDate_def by (rule split_toISOString)
  have d1: "Day firstAPOD \<le> Day (randomTime env)" using b by (intro Day_mono) simp
  have d2: "Day (randomTime env) \<le> Day (now env)" using b by (intro Day_mono) simp
  have v: "validate env (Some (randomDate env)) = Inr (randomDate env)"
    if "now env < 253402300800000"
    unfolding s using b that by (intro validate_date_string) simp_all
  from b s d1 d2 v show ?thesis by (simp add: randomTime_def Let_def)
qed

theorem randomDate_within_range_witness:
  "firstAPOD \<le> now example_env \<and> 0 \<le> Math_random example_env \<and> Math_random example_env < 1 \<and>
   randomTime example_env = 1266894000061 \<and>
   randomDate example_env = ''2010-02-23'' \<and>
   validate example_env (Some ''2010-02-23'') = Inr ''2010-02-23''"
proof -
  have h: "firstAPOD \<le> now example_env" "0 \<le> Math_random example_env"
    "Math_random example_env < 1" "mono (to_double example_env)"
    "to_double example_env 0 = 0"
    "to_double example_env (of_int (now example_env - firstAPOD)) =
       of_int (now example_env - firstAPOD)"
    by (simp_all add: example_env_def firstAPOD_def mono_def)
  have t: "randomTime example_env = 1266894000061"
    by (simp add: randomTime_def example_env_def firstAPOD_def)
  have d: "date_string 1266894000061 = ''2010-02-23''" by code_simp
  have n: "now example_env < 253402300800000" by (simp add: example_env_def)
  from randomDate_within_range[OF h] have
    r: "randomDate example_env = date_string (randomTime example_env)" and
    v: "now example_env < 253402300800000 \<longrightarrow>
        validate example_env (Some (randomDate example_env)) = Inr (randomDate example_env)"
    by blast+
  from r have r': "randomDate example_env = ''2010-02-23''" by (simp only: t d)
  from v n have "validate example_env (Some ''2010-02-23'') = Inr ''2010-02-23''"
    by (simp only: r')
  with h t r' show ?thesis by simp
qed

subsection \<open>The cache entries\<close>

text \<open>
  C9, as stated, fails. The record of a response is stored under the date the provider
  reports, without a look at what the cache holds under that date, and a request for
  today also stores it under today's key. On 2024-11-01 at 02:00Z the provider still
  answers a request for today with the record of 2024-10-31, which is stored under
  2024-10-31 and under 2024-11-01. A day later it answers a request for today with the
  record of 2024-11-01, which replaces, under 2024-11-01, the record of 2024-10-31.
\<close>

theorem cache_entry_replaced_counterexample:
  "apodCache (fst (snd (fetchAPOD earlier_env None initial_state))) ''2024-11-01'' =
     Some apod_oct31 \<and>
   apodCache (fst (snd (fetchAPOD example_env None
       (fst (snd (fetchAPOD earlier_env None initial_state)))))) ''2024-11-01'' =
     Some example_apod_later \<and>
   example_apod_later \<noteq> apod_oct31"
proof -
  define st1 where "st1 = fst (snd (fetchAPOD earlier_env None initial_state))"
  have k1: "dateKey_of earlier_env None = ''2024-11-01''"
    by (simp add: dateKey_of_def todayKey_earlier)
  have a1: "apodCache initial_state (dateKey_of earlier_env None) = None"
    by (simp add: initial_state_def)
  have b1: "axios_get earlier_env (request_of earlier_env None) =
      Inr \<lparr>headers = Map.empty, data = apod_oct31\<rparr>"
    by (simp add: earlier_env_def)
  have c1: "apodCache st1 =
      (apodCache initial_state)(''2024-10-31'' \<mapsto> apod_oct31, ''2024-11-01'' \<mapsto> apod_oct31)"
    unfolding st1_def by (simp add: fetchAPOD_miss_success[OF a1 b1] k1 apod_oct31_def)
  have k2: "dateKey_of example_env None = ''2024-11-02''"
    by (simp add: dateKey_of_def todayKey_example)
  have a2: "apodCache st1 (dateKey_of example_env None) = None"
    by (simp add: k2 c1 initial_state_def)
  have b2: "axios_get example_env (request_of example_env None) = Inr example_response"
    by (simp add: example_env_def)
  have c2: "apodCache (fst (snd (fetchAPOD example_env None st1))) ''2024-11-01'' =
      Some example_apod_later"
    by (simp add: fetchAPOD_miss_success[OF a2 b2] k2 example_response_def example_apod_later_def)
  have d: "example_apod_later \<noteq> apod_oct31"
    by (simp add: example_apod_later_def apod_oct31_def)
  from c1 c2 d show ?thesis unfolding st1_def by simp
qed

text \<open>
  C9, amended. The cache holds at most one entry per key (it is a map), and a fetch
  never removes a key. A fetch whose effective key is in the cache changes nothing.
  An entry that exists before a fetch is afterwards either the same, or it is the entry
  under the date reported by the provider in the response just received, that date is
  not the effective key, and the entry now holds the record of this response (the same
  record as before only if the provider sent the same record).
\<close>

theorem fetchAPOD_cache_entries:
  assumes "fetchAPOD env dateArg st = (res, st', calls)"
  shows "dom (apodCache st) \<subseteq> dom (apodCache st') \<and>
         (apodCache st (dateKey_of env dateArg) \<noteq> None \<longrightarrow> st' = st) \<and>
         (\<forall>k r. apodCache st k = Some r \<longrightarrow>
            apodCache st' k = Some r \<or>
            (\<exists>resp. axios_get env (request_of env dateArg) = Inr resp \<and>
                    k = date (data resp) \<and> k \<noteq> dateKey_of env dateArg \<and>
                    apodCache st' k = Some (data resp)))"
proof (cases "apodCache st (dateKey_of env dateArg)")
  case (Some r)
  then have "fetchAPOD env dateArg st = (Inr r, st, [])" by (rule fetchAPOD_hit)
  with assms have "st' = st" by simp
  then show ?thesis by simp
next
  case None
  show ?thesis
  proof (cases "axios_get env (request_of env dateArg)")
    case (Inl err)
    with None have "fetchAPOD env dateArg st = (Inl err, st, [request_of env dateArg])"
      by (rule fetchAPOD_miss_error)
    with assms have "st' = st" by simp
    then show ?thesis by simp
  next
    case (Inr resp)
    from fetchAPOD_miss_success[OF None Inr] assms
    have c: "apodCache st' =
         (if \<not> truthy dateArg \<and> date (data resp) \<noteq> dateKey_of env dateArg
          then (apodCache st)(date (data resp) \<mapsto> data resp, dateKey_of env dateArg \<mapsto> data resp)
          else (apodCache st)(date (data resp) \<mapsto> data resp))"
      by auto
    have 1: "dom (apodCache st) \<subseteq> dom (apodCache st')"
      unfolding c by auto
    have 2: "\<forall>k r. apodCache st k = Some r \<longrightarrow>
            apodCache st' k = Some r \<or>
            (\<exists>resp. axios_get env (request_of env dateArg) = Inr resp \<and>
                    k = date (data resp) \<and> k \<noteq> dateKey_of env dateArg \<and>
                    apodCache st' k = Some (data resp))"
      unfolding c Inr using None by (auto split: if_splits)
    from 1 2 None show ?thesis by simp
  qed
qed

theorem fetchAPOD_cache_entries_witness:
  "dom (apodCache example_state) \<subseteq>
     dom (apodCache (fst (snd (fetchAPOD example_env (Some ''2024-11-01'') example_state)))) \<and>
   fst (snd (fetchAPOD example_env (Some ''2024-11-01'') example_state)) = example_state \<and>
   dom (apodCache example_state) \<subseteq>
     dom (apodCache (fst (snd (fetchAPOD example_env None example_state)))) \<and>
   apodCache (fst (snd (fetchAPOD example_env None example_state))) ''2024-11-01'' =
     Some example_apod_later"
proof -
  have "fetchAPOD example_env (Some ''2024-11-01'') example_state =
      (fst (fetchAPOD example_env (Some ''2024-11-01'') example_state),
       fst (snd (fetchAPOD example_env (Some ''2024-11-01'') example_state)),
       snd (snd (fetchAPOD example_env (Some ''2024-11-01'') example_state)))"
    by simp
  from fetchAPOD_cache_entries[OF this]
  have hit: "dom (apodCache example_state) \<subseteq>
     dom (apodCache (fst (snd (fetchAPOD example_env (Some ''2024-11-01'') example_state)))) \<and>
   fst (snd (fetchAPOD example_env (Some ''2024-11-01'') example_state)) = example_state"
    by (simp add: dateKey_of_def example_state_def)
  have "fetchAPOD example_env None example_state =
      (fst (fetchAPOD example_env None example_state),
       fst (snd (fetchAPOD example_env None example_state)),
       snd (snd (fetchAPOD example_env None example_state)))"
    by simp
  from fetchAPOD_cache_entries[OF this]
  have m: "dom (apodCache example_state) \<subseteq>
             dom (apodCache (fst (snd (fetchAPOD example_env None example_state))))"
    and e: "\<forall>k r. apodCache example_state k = Some r \<longrightarrow>
            apodCache (fst (snd (fetchAPOD example_env None example_state))) k = Some r \<or>
            (\<exists>resp. axios_get example_env (request_of example_env None) = Inr resp \<and>
                    k = date (data resp) \<and> k \<noteq> dateKey_of example_env None \<and>
                    apodCache (fst (snd (fetchAPOD example_env None example_state))) k =
                      Some (data resp))"
    by blast+
  have old: "apodCache example_state ''2024-11-01'' = Some example_apod"
    by (simp add: example_state_def)
  have k: "dateKey_of example_env None = ''2024-11-02''"
    by (simp add: dateKey_of_def todayKey_example)
  have a: "apodCache example_state (dateKey_of example_env None) = None"
    by (simp add: k example_state_def)
  have b: "axios_get example_env (request_of example_env None) = Inr example_response"
    by (simp add: example_env_def)
  have new: "apodCache (fst (snd (fetchAPOD example_env None example_state))) ''2024-11-01'' =
      Some example_apod_later"
    by (simp add: fetchAPOD_miss_success[OF a b] k example_response_def example_apod_later_def)
  from hit m new show ?thesis by simp
qed

subsection \<open>Failure of the outbound call\<close>

text \<open>
  C10. When the key is not in the cache and the outbound call fails, the fetch helper
  fails with the same error, after this one call, and leaves the cache and the
  rate-limit snapshot as they were. Whenever a fetch changes the state, its outbound
  call has succeeded and the fetch returns the record of the response.
\<close>

theorem fetchAPOD_error_leaves_state:
  "(apodCache st (dateKey_of env dateArg) = None \<and>
    axios_get env (request_of env dateArg) = Inl err \<longrightarrow>
      fetchAPOD env dateArg st = (Inl err, st, [request_of env dateArg])) \<and>
   (fst (snd (fetchAPOD env dateArg st)) \<noteq> st \<longrightarrow>
      (\<exists>resp. axios_get env (request_of env dateArg) = Inr resp \<and>
              fst (fetchAPOD env dateArg st) = Inr (data resp)))"
  unfolding fetchAPOD_def Let_def by (auto split: option.splits sum.splits)

theorem fetchAPOD_error_leaves_state_witness:
  "apodCache example_state (dateKey_of failing_env (Some ''2024-10-31'')) = None \<and>
   axios_get failing_env (request_of failing_env (Some ''2024-10-31'')) = Inl timeout_error \<and>
   fetchAPOD failing_env (Some ''2024-10-31'') example_state =
     (Inl timeout_error, example_state, [request_of failing_env (Some ''2024-10-31'')])"
  using fetchAPOD_error_leaves_state[where st = example_state and env = failing_env
      and dateArg = "Some ''2024-10-31''" and err = timeout_error]
  by (simp add: dateKey_of_def example_state_def failing_env_def)

end
